theory Spec2Isabelle
  imports Main
begin

chapter \<open>The Nightwatch hook\<close>

text \<open>
  \<^verbatim>\<open>nightwatch_hook.py\<close> runs once per session event: it reads one JSON payload from
  standard input, looks up the terminal of the calling process, builds a state
  dictionary and writes it, as one line of JSON, to a Unix socket. This theory embeds
  its four functions, \<^verbatim>\<open>get_tty\<close>, \<^verbatim>\<open>get_terminal_pid\<close>, \<^verbatim>\<open>send_to_app\<close> and
  \<^verbatim>\<open>main\<close>, together with the library functions they call on strings and
  dictionaries. What the operating system answers is a parameter of the model (the record
  \<open>env\<close> below); an exception is a value, and every \<^verbatim>\<open>try\<close> block is a function that
  returns the exception raised or the value computed, followed by its handler. Running
  out of memory or of stack is outside the model.
\<close>

section \<open>Python values\<close>

text \<open>
  The hook handles values that \<^verbatim>\<open>json.load\<close> returns and \<^verbatim>\<open>json.dumps\<close>
  accepts: \<^verbatim>\<open>None\<close>, booleans, unbounded integers, floats, strings, lists and
  dictionaries with string keys. A string is a list of characters, each standing for a
  code point below 256. A float is kept as the text \<^verbatim>\<open>json.dumps\<close> writes for it
  (\<^verbatim>\<open>float.__repr__\<close>, or \<^verbatim>\<open>NaN\<close>, \<^verbatim>\<open>Infinity\<close>, \<^verbatim>\<open>-Infinity\<close>): the hook
  never computes with one. A dictionary is an association list in insertion order.
\<close>

datatype pyval =
    PyNone
  | PyBool bool
  | PyInt int
  | PyFloat string
  | PyStr string
  | PyList "pyval list"
  | PyDict "(string \<times> pyval) list"

type_synonym pydict = "(string \<times> pyval) list"

text \<open>\<^verbatim>\<open>d.get(k, default)\<close>; \<^verbatim>\<open>d.get(k)\<close> is \<open>dict_get d k PyNone\<close>.\<close>

definition dict_get :: "pydict \<Rightarrow> string \<Rightarrow> pyval \<Rightarrow> pyval" where
  "dict_get d k dflt = (case map_of d k of Some v \<Rightarrow> v | None \<Rightarrow> dflt)"

text \<open>\<^verbatim>\<open>d[k] = v\<close>: an existing key keeps its place, a new key goes last.\<close>

fun dict_set :: "pydict \<Rightarrow> string \<Rightarrow> pyval \<Rightarrow> pydict" where
  "dict_set [] k v = [(k, v)]"
| "dict_set ((k', v') # d) k v =
     (if k' = k then (k, v) # d else (k', v') # dict_set d k v)"

text \<open>The keys of a dictionary, as \<^verbatim>\<open>list(d)\<close> gives them.\<close>

definition dict_keys :: "pydict \<Rightarrow> string list" where
  "dict_keys d = map fst d"

text \<open>Truth value testing, as \<^verbatim>\<open>bool(v)\<close>.\<close>

fun truthy :: "pyval \<Rightarrow> bool" where
  "truthy PyNone = False"
| "truthy (PyBool b) = b"
| "truthy (PyInt i) = (i \<noteq> 0)"
| "truthy (PyFloat r) = (r \<noteq> ''0.0'' \<and> r \<noteq> ''-0.0'')"
| "truthy (PyStr s) = (s \<noteq> [])"
| "truthy (PyList xs) = (xs \<noteq> [])"
| "truthy (PyDict d) = (d \<noteq> [])"

text \<open>\<^verbatim>\<open>a or b\<close>: the first operand when it is true, the second otherwise.\<close>

definition py_or :: "pyval \<Rightarrow> pyval \<Rightarrow> pyval" where
  "py_or a b = (if truthy a then a else b)"

section \<open>Text\<close>

text \<open>\<^verbatim>\<open>str(n)\<close> for an integer: decimal digits, with a minus sign when negative.\<close>

definition digit_char :: "nat \<Rightarrow> char" where
  "digit_char d = ''0123456789abcdef'' ! d"

fun str_nat :: "nat \<Rightarrow> string" where
  "str_nat n = (if n < 10 then [digit_char n] else str_nat (n div 10) @ [digit_char (n mod 10)])"

declare str_nat.simps [simp del]

definition str_int :: "int \<Rightarrow> string" where
  "str_int i = (if i < 0 then CHR ''-'' # str_nat (nat (- i)) else str_nat (nat i))"

text \<open>
  \<^verbatim>\<open>str.isspace\<close> on one character: the code points below 256 that Python counts
  as whitespace are 9 to 13, 28 to 32, 133 and 160.
\<close>

definition py_isspace :: "char \<Rightarrow> bool" where
  "py_isspace c =
     (let n = (of_char c :: nat)
      in (9 \<le> n \<and> n \<le> 13) \<or> (28 \<le> n \<and> n \<le> 32) \<or> n = 133 \<or> n = 160)"

text \<open>\<^verbatim>\<open>s.strip()\<close>\<close>

definition py_strip :: "string \<Rightarrow> string" where
  "py_strip s = rev (dropWhile py_isspace (rev (dropWhile py_isspace s)))"

text \<open>\<^verbatim>\<open>s.split(sep)\<close> for a one-character separator: never the empty list.\<close>

fun py_split :: "char \<Rightarrow> string \<Rightarrow> string list" where
  "py_split sep [] = [[]]"
| "py_split sep (c # cs) =
     (if c = sep then [] # py_split sep cs
      else (case py_split sep cs of [] \<Rightarrow> [[c]] | w # ws \<Rightarrow> (c # w) # ws))"

text \<open>
  \<^verbatim>\<open>s.split(None, maxsplit)\<close>: words separated by runs of whitespace; after
  \<open>maxsplit\<close> words the rest of the string, without its leading whitespace, is the last
  element.
\<close>

fun py_split_ws :: "nat \<Rightarrow> string \<Rightarrow> string list" where
  "py_split_ws 0 s =
     (let r = dropWhile py_isspace s in if r = [] then [] else [r])"
| "py_split_ws (Suc n) s =
     (let r = dropWhile py_isspace s
      in if r = [] then []
         else takeWhile (\<lambda>c. \<not> py_isspace c) r #
              py_split_ws n (dropWhile (\<lambda>c. \<not> py_isspace c) r))"

section \<open>Exceptions\<close>

text \<open>
  The exception classes the hook names or meets. \<open>OSError\<close> stands for the class and
  its subclasses (\<^verbatim>\<open>socket.error\<close> is the same class; \<^verbatim>\<open>FileNotFoundError\<close>,
  \<^verbatim>\<open>ConnectionRefusedError\<close> and \<^verbatim>\<open>socket.timeout\<close> are subclasses).
  \<^verbatim>\<open>json.JSONDecodeError\<close> and \<^verbatim>\<open>UnicodeDecodeError\<close> are subclasses of
  \<^verbatim>\<open>ValueError\<close>.
\<close>

datatype exn =
    JSONDecodeError | UnicodeDecodeError | ValueError | IndexError | AttributeError
  | TimeoutExpired | OSError

text \<open>\<^verbatim>\<open>socket.error\<close> is an alias of \<^verbatim>\<open>OSError\<close>.\<close>

definition socket_error :: exn where
  "socket_error = OSError"

fun isinstance :: "exn \<Rightarrow> exn \<Rightarrow> bool" where
  "isinstance JSONDecodeError ValueError = True"
| "isinstance UnicodeDecodeError ValueError = True"
| "isinstance x c = (x = c)"

text \<open>Whether \<^verbatim>\<open>except (c1, ..., cn)\<close> handles the exception.\<close>

fun handles :: "exn list \<Rightarrow> exn \<Rightarrow> bool" where
  "handles [] x = False"
| "handles (c # cs) x = (if isinstance x c then True else handles cs x)"

text \<open>
  \<^verbatim>\<open>int(s)\<close> on a string, as CPython 3.11 does it: surrounding whitespace is
  dropped (for \<^verbatim>\<open>int\<close> that is the code points 9 to 13, 32, 133 and 160), then come
  an optional sign and decimal digits, where single underscores may separate digits;
  more than \<^verbatim>\<open>sys.int_info.default_max_str_digits\<close> digits, and anything else, raise
  \<^verbatim>\<open>ValueError\<close>.
\<close>

definition int_isspace :: "char \<Rightarrow> bool" where
  "int_isspace c =
     (let n = (of_char c :: nat)
      in (9 \<le> n \<and> n \<le> 13) \<or> n = 32 \<or> n = 133 \<or> n = 160)"

definition int_strip :: "string \<Rightarrow> string" where
  "int_strip s = rev (dropWhile int_isspace (rev (dropWhile int_isspace s)))"

definition default_max_str_digits :: nat where
  "default_max_str_digits = 4300"

definition is_digit :: "char \<Rightarrow> bool" where
  "is_digit c = (48 \<le> (of_char c :: nat) \<and> (of_char c :: nat) \<le> 57)"

fun digits_ok :: "string \<Rightarrow> bool" where
  "digits_ok [] = False"
| "digits_ok [c] = is_digit c"
| "digits_ok (c # d # cs) =
     (if is_digit c then (if d = CHR ''_'' then digits_ok cs else digits_ok (d # cs))
      else False)"

definition digits_value :: "string \<Rightarrow> nat" where
  "digits_value s =
     foldl (\<lambda>acc c. 10 * acc + (of_char c - 48)) 0 (filter is_digit s)"

definition py_int :: "string \<Rightarrow> exn + int" where
  "py_int s =
     (let t = int_strip s;
          (neg, body) = (case t of
                           [] \<Rightarrow> (False, [])
                         | c # cs \<Rightarrow> if c = CHR ''-'' then (True, cs)
                                    else if c = CHR ''+'' then (False, cs)
                                    else (False, t))
      in if digits_ok body
         then (if length (filter is_digit body) > default_max_str_digits
               then Inl ValueError
               else Inr (if neg then - int (digits_value body) else int (digits_value body)))
         else Inl ValueError)"

section \<open>Serialization\<close>

text \<open>
  \<^verbatim>\<open>json.dumps(obj)\<close> with its defaults: \<^verbatim>\<open>ensure_ascii=True\<close>, separators
  \<^verbatim>\<open>", "\<close> and \<^verbatim>\<open>": "\<close>, keys in insertion order. In a string, the quote and
  the backslash are escaped with a backslash, backspace, form feed, newline, carriage
  return and tab have their short escapes, and every other character outside the range
  from space to tilde is written as a backslash, \<^verbatim>\<open>u\<close> and four hexadecimal digits.
\<close>

definition hex4 :: "nat \<Rightarrow> string" where
  "hex4 n = [digit_char (n div 4096 mod 16), digit_char (n div 256 mod 16),
             digit_char (n div 16 mod 16), digit_char (n mod 16)]"

definition escape_char :: "char \<Rightarrow> string" where
  "escape_char c =
     (let n = (of_char c :: nat)
      in if n = 0x22 then [CHR 0x5C, CHR 0x22]
         else if n = 0x5C then [CHR 0x5C, CHR 0x5C]
         else if n = 0x08 then [CHR 0x5C, CHR ''b'']
         else if n = 0x0C then [CHR 0x5C, CHR ''f'']
         else if n = 0x0A then [CHR 0x5C, CHR ''n'']
         else if n = 0x0D then [CHR 0x5C, CHR ''r'']
         else if n = 0x09 then [CHR 0x5C, CHR ''t'']
         else if 0x20 \<le> n \<and> n \<le> 0x7E then [c]
         else CHR 0x5C # CHR ''u'' # hex4 n)"

definition encode_basestring_ascii :: "string \<Rightarrow> string" where
  "encode_basestring_ascii s = CHR 0x22 # concat (map escape_char s) @ [CHR 0x22]"

fun json_dumps :: "pyval \<Rightarrow> string"
  and dumps_elems :: "pyval list \<Rightarrow> string"
  and dumps_items :: "(string \<times> pyval) list \<Rightarrow> string"
where
  "json_dumps PyNone = ''null''"
| "json_dumps (PyBool b) = (if b then ''true'' else ''false'')"
| "json_dumps (PyInt i) = str_int i"
| "json_dumps (PyFloat r) = r"
| "json_dumps (PyStr s) = encode_basestring_ascii s"
| "json_dumps (PyList xs) = ''['' @ dumps_elems xs @ '']''"
| "json_dumps (PyDict d) = ''{'' @ dumps_items d @ ''}''"
| "dumps_elems [] = []"
| "dumps_elems [x] = json_dumps x"
| "dumps_elems (x # y # ys) = json_dumps x @ '', '' @ dumps_elems (y # ys)"
| "dumps_items [] = []"
| "dumps_items [(k, v)] = encode_basestring_ascii k @ '': '' @ json_dumps v"
| "dumps_items ((k, v) # kv # kvs) =
     encode_basestring_ascii k @ '': '' @ json_dumps v @ '', '' @ dumps_items (kv # kvs)"

text \<open>\<^verbatim>\<open>s.encode()\<close>: UTF-8, one byte below 128 and two bytes from 128 to 255.\<close>

definition utf8_char :: "char \<Rightarrow> string" where
  "utf8_char c =
     (let n = (of_char c :: nat)
      in if n < 128 then [c] else [char_of (192 + n div 64), char_of (128 + n mod 64)])"

definition py_encode :: "string \<Rightarrow> string" where
  "py_encode s = concat (map utf8_char s)"

section \<open>Building the state object\<close>

text \<open>
  Lines 72 to 117 of \<^verbatim>\<open>main\<close>: the fields read from the payload, the state
  dictionary and the event-specific fields. \<open>data\<close> is the decoded payload,
  \<open>terminal_info\<close> the result of \<^verbatim>\<open>get_terminal_pid()\<close>, \<open>tty\<close> the result of
  \<^verbatim>\<open>get_tty()\<close> and \<open>ts\<close> the value of \<^verbatim>\<open>int(os.times().elapsed * 1000)\<close>.
\<close>

definition base_state :: "pydict \<Rightarrow> pydict \<Rightarrow> pyval \<Rightarrow> int \<Rightarrow> pydict" where
  "base_state data terminal_info tty ts =
     [(''session_id'', dict_get data ''session_id'' (PyStr ''unknown'')),
      (''cwd'', dict_get data ''cwd'' (PyStr '''')),
      (''event'', dict_get data ''hook_event_name'' (PyStr '''')),
      (''timestamp'', PyInt ts),
      (''pid'', dict_get terminal_info ''pid'' PyNone),
      (''ppid'', dict_get terminal_info ''ppid'' PyNone),
      (''tty'', py_or tty (dict_get terminal_info ''tty'' PyNone))]"

definition build_state :: "pydict \<Rightarrow> pydict \<Rightarrow> pyval \<Rightarrow> int \<Rightarrow> pydict" where
  "build_state data terminal_info tty ts =
     (let event = dict_get data ''hook_event_name'' (PyStr '''');
          tool_name = dict_get data ''tool_name'' PyNone;
          state = base_state data terminal_info tty ts
      in if event = PyStr ''SessionStart'' then
           dict_set state ''status'' (PyStr ''started'')
         else if event = PyStr ''SessionEnd'' then
           dict_set state ''status'' (PyStr ''ended'')
         else if event = PyStr ''PreToolUse'' then
           dict_set (dict_set state ''status'' (PyStr ''active'')) ''tool'' tool_name
         else if event = PyStr ''PostToolUse'' then
           dict_set (dict_set state ''status'' (PyStr ''active'')) ''tool'' tool_name
         else if event = PyStr ''UserPromptSubmit'' then
           dict_set (dict_set state ''status'' (PyStr ''active'')) ''user_input'' (PyBool True)
         else if event = PyStr ''Stop'' then
           dict_set state ''status'' (PyStr ''idle'')
         else
           dict_set state ''status'' (PyStr ''active''))"

section \<open>The environment of one invocation\<close>

text \<open>
  What the operating system and the libraries answer during one run of the hook. Each
  field is the outcome of one call the hook makes: either the value returned (\<open>Inr\<close>,
  or \<open>None\<close> for a call made for its effect) or the exception raised.
  \<^item> \<open>stdin_json\<close>: \<^verbatim>\<open>json.load(sys.stdin)\<close>;
  \<^item> \<open>getppid\<close>: \<^verbatim>\<open>os.getppid()\<close>, read by both calls in \<^verbatim>\<open>get_terminal_pid\<close>;
  \<^item> \<open>ps_run\<close>: \<^verbatim>\<open>subprocess.run(['ps', ...], capture_output=True, text=True, timeout=1)\<close>,
    returning \<^verbatim>\<open>returncode\<close> and \<^verbatim>\<open>stdout\<close>;
  \<^item> \<open>stdin_ttyname\<close>: \<^verbatim>\<open>os.ttyname(sys.stdin.fileno())\<close>, the path of the terminal
    device when it returns, never the empty string;
  \<^item> \<open>elapsed_ms\<close>: \<^verbatim>\<open>int(os.times().elapsed * 1000)\<close>;
  \<^item> \<open>sock_socket\<close>, \<open>sock_connect\<close>, \<open>sock_close\<close>: creating the socket, connecting it to
    \<^verbatim>\<open>SOCKET_PATH\<close> and closing it;
  \<^item> \<open>sock_sendall\<close>: \<^verbatim>\<open>sock.sendall(payload)\<close>; \<open>Some (n, x)\<close> says that \<open>x\<close> was
    raised after \<open>n\<close> bytes of the payload had been written.
\<close>

record env =
  stdin_json :: "exn + pyval"
  getppid :: int
  ps_run :: "exn + int \<times> string"
  stdin_ttyname :: "exn + string"
  elapsed_ms :: int
  sock_socket :: "exn option"
  sock_connect :: "exn option"
  sock_sendall :: "(nat \<times> exn) option"
  sock_close :: "exn option"

definition SOCKET_PATH :: string where
  "SOCKET_PATH = ''/tmp/nightwatch.sock''"

definition TIMEOUT_SECONDS :: nat where
  "TIMEOUT_SECONDS = 2"

section \<open>get\_tty\<close>

definition get_tty :: "env \<Rightarrow> exn + pyval" where
  "get_tty e =
     (case stdin_ttyname e of
        Inr name \<Rightarrow> Inr (PyStr name)
      | Inl x \<Rightarrow> if handles [OSError, AttributeError] x then Inr PyNone else Inl x)"

section \<open>get\_terminal\_pid\<close>

text \<open>
  The body of the \<^verbatim>\<open>try\<close> block: it raises (\<open>Inl\<close>), returns a dictionary
  (\<open>Inr (Some d)\<close>) or falls through to the statement after the block (\<open>Inr None\<close>).
\<close>

definition terminal_pid_try :: "env \<Rightarrow> exn + pydict option" where
  "terminal_pid_try e =
     (let ppid = getppid e
      in case ps_run e of
           Inl x \<Rightarrow> Inl x
         | Inr (returncode, stdout) \<Rightarrow>
             if returncode = 0 then
               (let lines = py_split (CHR 0x0A) (py_strip stdout)
                in if length lines > 1 then
                     (let parts = py_split_ws 3 (lines ! 1)
                      in case (if length parts > 1
                               then (case py_int (parts ! 1) of
                                       Inl x \<Rightarrow> Inl x | Inr n \<Rightarrow> Inr (PyInt n))
                               else Inr PyNone) of
                           Inl x \<Rightarrow> Inl x
                         | Inr parent \<Rightarrow>
                             Inr (Some [(''pid'', PyInt ppid),
                                        (''ppid'', parent),
                                        (''tty'', if length parts > 2
                                                  then PyStr (parts ! 2) else PyNone)]))
                   else Inr None)
             else Inr None)"

definition fallback_identity :: "env \<Rightarrow> pydict" where
  "fallback_identity e = [(''pid'', PyInt (getppid e)), (''ppid'', PyNone), (''tty'', PyNone)]"

definition get_terminal_pid :: "env \<Rightarrow> exn + pydict" where
  "get_terminal_pid e =
     (case terminal_pid_try e of
        Inr (Some d) \<Rightarrow> Inr d
      | Inr None \<Rightarrow> Inr (fallback_identity e)
      | Inl x \<Rightarrow>
          if handles [TimeoutExpired, ValueError, IndexError] x
          then Inr (fallback_identity e)
          else Inl x)"

section \<open>send\_to\_app\<close>

text \<open>
  What the hook does to the socket, in order. \<open>Write bs\<close> carries the bytes that
  reached the connection.
\<close>

datatype action = Socket | SetTimeout nat | Connect string | Write string | Close

text \<open>
  The bytes handed to \<^verbatim>\<open>sendall\<close>: \<^verbatim>\<open>json.dumps(state).encode()\<close> and one
  newline byte.
  Every value of the state object comes from the decoded payload or is \<^verbatim>\<open>None\<close>, a
  boolean, an integer or a string, and every key is a string, so \<^verbatim>\<open>json.dumps\<close>
  raises nothing here.
\<close>

definition wire_record :: "pydict \<Rightarrow> string" where
  "wire_record state = py_encode (json_dumps (PyDict state)) @ [CHR 0x0A]"

text \<open>The body of the \<^verbatim>\<open>try\<close> block, with the socket operations it reached.\<close>

definition send_try :: "env \<Rightarrow> pydict \<Rightarrow> (exn + bool) \<times> action list" where
  "send_try e state =
     (case sock_socket e of
        Some x \<Rightarrow> (Inl x, [Socket])
      | None \<Rightarrow>
         (case sock_connect e of
            Some x \<Rightarrow> (Inl x, [Socket, SetTimeout TIMEOUT_SECONDS, Connect SOCKET_PATH])
          | None \<Rightarrow>
             (case sock_sendall e of
                Some (n, x) \<Rightarrow>
                  (Inl x, [Socket, SetTimeout TIMEOUT_SECONDS, Connect SOCKET_PATH,
                           Write (take n (wire_record state))])
              | None \<Rightarrow>
                 (case sock_close e of
                    Some x \<Rightarrow>
                      (Inl x, [Socket, SetTimeout TIMEOUT_SECONDS, Connect SOCKET_PATH,
                               Write (wire_record state), Close])
                  | None \<Rightarrow>
                      (Inr True, [Socket, SetTimeout TIMEOUT_SECONDS, Connect SOCKET_PATH,
                                  Write (wire_record state), Close])))))"

definition send_to_app :: "env \<Rightarrow> pydict \<Rightarrow> (exn + bool) \<times> action list" where
  "send_to_app e state =
     (case send_try e state of
        (Inr b, tr) \<Rightarrow> (Inr b, tr)
      | (Inl x, tr) \<Rightarrow> if handles [socket_error, OSError] x then (Inr False, tr) else (Inl x, tr))"

section \<open>main\<close>

text \<open>
  How the process ends: \<^verbatim>\<open>sys.exit(n)\<close>, or an exception nobody handles, which
  the interpreter reports with exit status 1.
\<close>

datatype ending = Exited int | Uncaught exn

fun exit_code :: "ending \<Rightarrow> int" where
  "exit_code (Exited n) = n"
| "exit_code (Uncaught x) = 1"

text \<open>
  The result of a run: how it ended, the state object if one was built, and the socket
  operations performed.
\<close>

record run =
  ending :: ending
  built :: "pydict option"
  trace :: "action list"

definition main :: "env \<Rightarrow> run" where
  "main e =
     (case stdin_json e of
        Inl x \<Rightarrow>
          if handles [JSONDecodeError] x
          then \<lparr>ending = Exited 0, built = None, trace = []\<rparr>
          else \<lparr>ending = Uncaught x, built = None, trace = []\<rparr>
      | Inr (PyDict data) \<Rightarrow>
          (case get_terminal_pid e of
             Inl x \<Rightarrow> \<lparr>ending = Uncaught x, built = None, trace = []\<rparr>
           | Inr terminal_info \<Rightarrow>
              (case get_tty e of
                 Inl x \<Rightarrow> \<lparr>ending = Uncaught x, built = None, trace = []\<rparr>
               | Inr tty \<Rightarrow>
                  (let state = build_state data terminal_info tty (elapsed_ms e)
                   in case send_to_app e state of
                        (Inl x, tr) \<Rightarrow> \<lparr>ending = Uncaught x, built = Some state, trace = tr\<rparr>
                      | (Inr sent, tr) \<Rightarrow> \<lparr>ending = Exited 0, built = Some state, trace = tr\<rparr>)))
      | Inr other \<Rightarrow> \<lparr>ending = Uncaught AttributeError, built = None, trace = []\<rparr>)"

text \<open>The bytes that reached the socket during a run.\<close>

fun bytes_sent :: "action list \<Rightarrow> string" where
  "bytes_sent [] = []"
| "bytes_sent (Write bs # as) = bs @ bytes_sent as"
| "bytes_sent (a # as) = bytes_sent as"

section \<open>The table of the specification\<close>

text \<open>
  The event kinds of the specification's data model and the table of its section 4.2,
  written from the specification's words, to be compared with \<open>build_state\<close>.
\<close>

datatype event_kind =
    SessionStart | SessionEnd | PreToolUse | PostToolUse | UserPromptSubmit | Stop
  | Other pyval

definition event_kind_of :: "pyval \<Rightarrow> event_kind" where
  "event_kind_of e =
     (if e = PyStr ''SessionStart'' then SessionStart
      else if e = PyStr ''SessionEnd'' then SessionEnd
      else if e = PyStr ''PreToolUse'' then PreToolUse
      else if e = PyStr ''PostToolUse'' then PostToolUse
      else if e = PyStr ''UserPromptSubmit'' then UserPromptSubmit
      else if e = PyStr ''Stop'' then Stop
      else Other e)"

fun table_status :: "event_kind \<Rightarrow> string" where
  "table_status SessionStart = ''started''"
| "table_status SessionEnd = ''ended''"
| "table_status PreToolUse = ''active''"
| "table_status PostToolUse = ''active''"
| "table_status UserPromptSubmit = ''active''"
| "table_status Stop = ''idle''"
| "table_status (Other e) = ''active''"

fun table_extra :: "event_kind \<Rightarrow> pyval \<Rightarrow> pydict" where
  "table_extra PreToolUse tool_name = [(''tool'', tool_name)]"
| "table_extra PostToolUse tool_name = [(''tool'', tool_name)]"
| "table_extra UserPromptSubmit tool_name = [(''user_input'', PyBool True)]"
| "table_extra k tool_name = []"

text \<open>
  The rule of the specification for the \<open>tty\<close> field, from its words: the override
  when it is present, the tty of the identity otherwise.
\<close>

definition spec_tty :: "pyval \<Rightarrow> pyval \<Rightarrow> pyval" where
  "spec_tty tty_override identity_tty =
     (if tty_override \<noteq> PyNone then tty_override else identity_tty)"

section \<open>Predicates used in the statements\<close>

text \<open>Printable ASCII: the characters from space to tilde.\<close>

definition printable :: "char \<Rightarrow> bool" where
  "printable c = (32 \<le> (of_char c :: nat) \<and> (of_char c :: nat) \<le> 126)"

text \<open>
  A value whose floats carry a text of printable ASCII characters, as every text of
  \<^verbatim>\<open>float.__repr__\<close> and the three names \<^verbatim>\<open>NaN\<close>, \<^verbatim>\<open>Infinity\<close> and
  \<^verbatim>\<open>-Infinity\<close> are.
\<close>

fun floats_ok :: "pyval \<Rightarrow> bool"
  and floats_ok_elems :: "pyval list \<Rightarrow> bool"
  and floats_ok_items :: "(string \<times> pyval) list \<Rightarrow> bool"
where
  "floats_ok (PyFloat r) = list_all printable r"
| "floats_ok (PyList xs) = floats_ok_elems xs"
| "floats_ok (PyDict d) = floats_ok_items d"
| "floats_ok PyNone = True"
| "floats_ok (PyBool b) = True"
| "floats_ok (PyInt i) = True"
| "floats_ok (PyStr s) = True"
| "floats_ok_elems [] = True"
| "floats_ok_elems (x # xs) = (floats_ok x \<and> floats_ok_elems xs)"
| "floats_ok_items [] = True"
| "floats_ok_items ((k, v) # kvs) = (floats_ok v \<and> floats_ok_items kvs)"

fun is_connect :: "action \<Rightarrow> bool" where
  "is_connect (Connect p) = True"
| "is_connect a = False"

fun is_write :: "action \<Rightarrow> bool" where
  "is_write (Write bs) = True"
| "is_write a = False"

text \<open>
  The socket calls raise nothing but \<^verbatim>\<open>OSError\<close> (\<^verbatim>\<open>socket.error\<close> is the same
  class), as the socket library documents.
\<close>

fun raises_only :: "exn \<Rightarrow> exn option \<Rightarrow> bool" where
  "raises_only c None = True"
| "raises_only c (Some x) = isinstance x c"

definition socket_errors_only :: "env \<Rightarrow> bool" where
  "socket_errors_only e =
     (raises_only OSError (sock_socket e) \<and> raises_only OSError (sock_connect e) \<and>
      raises_only OSError (map_option snd (sock_sendall e)) \<and>
      raises_only OSError (sock_close e))"

section \<open>Example environments\<close>

text \<open>
  The \<open>Stop\<close> scenario of the specification: the payload has a session, the event
  \<open>Stop\<close> and a directory; \<^verbatim>\<open>ps\<close> answers with a header and one line; standard
  input is not a terminal; the application listens on the socket.
\<close>

definition env_listening :: env where
  "env_listening =
     \<lparr>stdin_json = Inr (PyDict [(''session_id'', PyStr ''abc''),
                               (''hook_event_name'', PyStr ''Stop''),
                               (''cwd'', PyStr ''/tmp'')]),
      getppid = 4242,
      ps_run = Inr (0, ''  PID  PPID TTY      COMMAND'' @ [CHR 0x0A] @
                       '' 4242  4000 ttys001  claude'' @ [CHR 0x0A]),
      stdin_ttyname = Inl OSError,
      elapsed_ms = 123456,
      sock_socket = None, sock_connect = None, sock_sendall = None, sock_close = None\<rparr>"

text \<open>The same, with nobody listening: \<^verbatim>\<open>connect\<close> raises.\<close>

definition env_no_endpoint :: env where
  "env_no_endpoint = env_listening\<lparr>sock_connect := Some OSError\<rparr>"

text \<open>The same as \<open>env_listening\<close>, with standard input on a terminal.\<close>

definition env_on_terminal :: env where
  "env_on_terminal = env_listening\<lparr>stdin_ttyname := Inr ''/dev/ttys002''\<rparr>"

text \<open>Standard input holds \<^verbatim>\<open>not json\<close>.\<close>

definition env_not_json :: env where
  "env_not_json = env_listening\<lparr>stdin_json := Inl JSONDecodeError\<rparr>"

text \<open>A payload that is an object with no field at all, on a later clock reading.\<close>

definition env_empty_object :: env where
  "env_empty_object = env_no_endpoint\<lparr>stdin_json := Inr (PyDict []), elapsed_ms := 123999\<rparr>"

text \<open>The record of the \<open>Stop\<close> scenario, as \<open>build_state\<close> gives it.\<close>

definition stop_record :: pydict where
  "stop_record =
     [(''session_id'', PyStr ''abc''), (''cwd'', PyStr ''/tmp''), (''event'', PyStr ''Stop''),
      (''timestamp'', PyInt 123456), (''pid'', PyInt 4242), (''ppid'', PyInt 4000),
      (''tty'', PyStr ''ttys001''), (''status'', PyStr ''idle'')]"

section \<open>Facts about dictionaries and the state object\<close>

lemma build_state_table_eq:
  "build_state data terminal_info tty ts =
     base_state data terminal_info tty ts @
       (''status'', PyStr (table_status (event_kind_of (dict_get data ''hook_event_name'' (PyStr ''''))))) #
       table_extra (event_kind_of (dict_get data ''hook_event_name'' (PyStr '''')))
         (dict_get data ''tool_name'' PyNone)"
  by (simp add: build_state_def base_state_def event_kind_of_def Let_def)

lemma dict_get_base_state:
  "dict_get (base_state data ti tty ts @ rest) ''tty'' dflt = py_or tty (dict_get ti ''tty'' PyNone)"
  "dict_get (base_state data ti tty ts @ rest) ''session_id'' dflt = dict_get data ''session_id'' (PyStr ''unknown'')"
  "dict_get (base_state data ti tty ts @ rest) ''cwd'' dflt = dict_get data ''cwd'' (PyStr '''')"
  "dict_get (base_state data ti tty ts @ rest) ''event'' dflt = dict_get data ''hook_event_name'' (PyStr '''')"
  "dict_get (base_state data ti tty ts @ rest) ''timestamp'' dflt = PyInt ts"
  "dict_get (base_state data ti tty ts @ rest) ''pid'' dflt = dict_get ti ''pid'' PyNone"
  "dict_get (base_state data ti tty ts @ rest) ''ppid'' dflt = dict_get ti ''ppid'' PyNone"
  "dict_get (base_state data ti tty ts @ rest) ''status'' dflt = dict_get rest ''status'' dflt"
  "dict_get (base_state data ti tty ts @ rest) ''tool'' dflt = dict_get rest ''tool'' dflt"
  "dict_get (base_state data ti tty ts @ rest) ''user_input'' dflt = dict_get rest ''user_input'' dflt"
  by (simp_all add: dict_get_def base_state_def)

lemma dict_keys_base_state:
  "dict_keys (base_state data ti tty ts) =
     [''session_id'', ''cwd'', ''event'', ''timestamp'', ''pid'', ''ppid'', ''tty'']"
  by (simp add: dict_keys_def base_state_def)

lemma base_state_nonempty: "base_state data ti tty ts \<noteq> []"
  by (simp add: base_state_def)

lemma dumps_items_snoc:
  "d \<noteq> [] \<Longrightarrow> dumps_items (d @ [(k, v)]) =
     dumps_items d @ '', '' @ encode_basestring_ascii k @ '': '' @ json_dumps v"
proof (induction d rule: list_nonempty_induct)
  case (single x)
  then show ?case by (cases x) simp
next
  case (cons x xs)
  then show ?case by (cases x; cases xs) auto
qed

lemma dumps_dict_snoc:
  "d \<noteq> [] \<Longrightarrow> json_dumps (PyDict (d @ [(k, v)])) =
     ''{'' @ dumps_items d @ '', '' @ encode_basestring_ascii k @ '': '' @ json_dumps v @ ''}''"
  by (simp add: dumps_items_snoc)

lemma encode_tool_key: \<open>encode_basestring_ascii ''tool'' = ''"tool"''\<close>
  by (simp add: encode_basestring_ascii_def escape_char_def)

section \<open>Normalization follows the table\<close>

text \<open>
  Claim C1. For every decoded payload, every resolved identity, every tty override and
  every clock reading, building the state object yields one record: the seven common
  fields, then a \<open>status\<close> that the event kind alone determines by the table of the
  specification, then the extra fields of the table. Row by row: \<open>SessionStart\<close>
  gives \<open>started\<close>, \<open>SessionEnd\<close> gives \<open>ended\<close>, \<open>PreToolUse\<close> and
  \<open>PostToolUse\<close> give \<open>active\<close> with \<open>tool = tool_name\<close>, \<open>UserPromptSubmit\<close>
  gives \<open>active\<close> with \<open>user_input = True\<close>, \<open>Stop\<close> gives \<open>idle\<close> with neither
  \<open>tool\<close> nor \<open>user_input\<close>, and any other event gives \<open>active\<close>.
\<close>

theorem normalize_follows_table:
  fixes data terminal_info :: pydict and tty :: pyval and ts :: int
  defines "event \<equiv> dict_get data ''hook_event_name'' (PyStr '''')"
    and "tool_name \<equiv> dict_get data ''tool_name'' PyNone"
    and "state \<equiv> build_state data terminal_info tty ts"
    and "base \<equiv> base_state data terminal_info tty ts"
  shows "state = base @ (''status'', PyStr (table_status (event_kind_of event))) #
                   table_extra (event_kind_of event) tool_name
       \<and> dict_get state ''status'' PyNone = PyStr (table_status (event_kind_of event))
       \<and> dict_keys state =
           [''session_id'', ''cwd'', ''event'', ''timestamp'', ''pid'', ''ppid'', ''tty'', ''status''] @
           dict_keys (table_extra (event_kind_of event) tool_name)
       \<and> (event = PyStr ''SessionStart'' \<longrightarrow> state = base @ [(''status'', PyStr ''started'')])
       \<and> (event = PyStr ''SessionEnd'' \<longrightarrow> state = base @ [(''status'', PyStr ''ended'')])
       \<and> (event = PyStr ''PreToolUse'' \<longrightarrow>
            state = base @ [(''status'', PyStr ''active''), (''tool'', tool_name)])
       \<and> (event = PyStr ''PostToolUse'' \<longrightarrow>
            state = base @ [(''status'', PyStr ''active''), (''tool'', tool_name)])
       \<and> (event = PyStr ''UserPromptSubmit'' \<longrightarrow>
            state = base @ [(''status'', PyStr ''active''), (''user_input'', PyBool True)])
       \<and> (event = PyStr ''Stop'' \<longrightarrow> state = base @ [(''status'', PyStr ''idle'')])
       \<and> (event \<notin> set [PyStr ''SessionStart'', PyStr ''SessionEnd'', PyStr ''PreToolUse'',
                         PyStr ''PostToolUse'', PyStr ''UserPromptSubmit'', PyStr ''Stop''] \<longrightarrow>
            state = base @ [(''status'', PyStr ''active'')])"
proof -
  let ?k = "event_kind_of event"
  let ?rest = "(''status'', PyStr (table_status ?k)) # table_extra ?k tool_name"
  have eq: "state = base @ ?rest"
    unfolding state_def base_def event_def tool_name_def by (rule build_state_table_eq)
  have "dict_get (base @ ?rest) ''status'' PyNone = dict_get ?rest ''status'' PyNone"
    unfolding base_def by (rule dict_get_base_state)
  then have status: "dict_get state ''status'' PyNone = PyStr (table_status ?k)"
    unfolding eq by (simp add: dict_get_def)
  have keys: "dict_keys state =
       [''session_id'', ''cwd'', ''event'', ''timestamp'', ''pid'', ''ppid'', ''tty'', ''status''] @
       dict_keys (table_extra ?k tool_name)"
    unfolding eq base_def using dict_keys_base_state [of data terminal_info tty ts]
    by (simp add: dict_keys_def)
  have rows:
    "event = PyStr ''SessionStart'' \<Longrightarrow> ?rest = [(''status'', PyStr ''started'')]"
    "event = PyStr ''SessionEnd'' \<Longrightarrow> ?rest = [(''status'', PyStr ''ended'')]"
    "event = PyStr ''PreToolUse'' \<Longrightarrow> ?rest = [(''status'', PyStr ''active''), (''tool'', tool_name)]"
    "event = PyStr ''PostToolUse'' \<Longrightarrow> ?rest = [(''status'', PyStr ''active''), (''tool'', tool_name)]"
    "event = PyStr ''UserPromptSubmit'' \<Longrightarrow>
       ?rest = [(''status'', PyStr ''active''), (''user_input'', PyBool True)]"
    "event = PyStr ''Stop'' \<Longrightarrow> ?rest = [(''status'', PyStr ''idle'')]"
    "event \<notin> set [PyStr ''SessionStart'', PyStr ''SessionEnd'', PyStr ''PreToolUse'',
                         PyStr ''PostToolUse'', PyStr ''UserPromptSubmit'', PyStr ''Stop''] \<Longrightarrow>
       ?rest = [(''status'', PyStr ''active'')]"
    by (simp_all add: event_kind_of_def)
  from eq status keys rows show ?thesis by simp
qed

theorem normalize_follows_table_witness:
  "dict_get [(''session_id'', PyStr ''abc''), (''hook_event_name'', PyStr ''Stop''), (''cwd'', PyStr ''/tmp'')]
      ''hook_event_name'' (PyStr '''') = PyStr ''Stop''
   \<and> build_state [(''session_id'', PyStr ''abc''), (''hook_event_name'', PyStr ''Stop''), (''cwd'', PyStr ''/tmp'')]
       [(''pid'', PyInt 4242), (''ppid'', PyInt 4000), (''tty'', PyStr ''ttys001'')] PyNone 123456 =
     [(''session_id'', PyStr ''abc''), (''cwd'', PyStr ''/tmp''), (''event'', PyStr ''Stop''),
      (''timestamp'', PyInt 123456), (''pid'', PyInt 4242), (''ppid'', PyInt 4000),
      (''tty'', PyStr ''ttys001''), (''status'', PyStr ''idle'')]
   \<and> dict_get [(''session_id'', PyStr ''abc''), (''hook_event_name'', PyStr ''PreToolUse''),
               (''cwd'', PyStr ''/tmp''), (''tool_name'', PyStr ''Bash'')]
      ''hook_event_name'' (PyStr '''') = PyStr ''PreToolUse''
   \<and> build_state [(''session_id'', PyStr ''abc''), (''hook_event_name'', PyStr ''PreToolUse''),
                  (''cwd'', PyStr ''/tmp''), (''tool_name'', PyStr ''Bash'')]
       [(''pid'', PyInt 4242), (''ppid'', PyNone), (''tty'', PyNone)] PyNone 5 =
     [(''session_id'', PyStr ''abc''), (''cwd'', PyStr ''/tmp''), (''event'', PyStr ''PreToolUse''),
      (''timestamp'', PyInt 5), (''pid'', PyInt 4242), (''ppid'', PyNone),
      (''tty'', PyNone), (''status'', PyStr ''active''), (''tool'', PyStr ''Bash'')]"
proof -
  let ?d1 = "[(''session_id'', PyStr ''abc''), (''hook_event_name'', PyStr ''Stop''), (''cwd'', PyStr ''/tmp'')]"
  let ?d2 = "[(''session_id'', PyStr ''abc''), (''hook_event_name'', PyStr ''PreToolUse''),
               (''cwd'', PyStr ''/tmp''), (''tool_name'', PyStr ''Bash'')]"
  have e1: "dict_get ?d1 ''hook_event_name'' (PyStr '''') = PyStr ''Stop''"
    by (simp add: dict_get_def)
  have e2: "dict_get ?d2 ''hook_event_name'' (PyStr '''') = PyStr ''PreToolUse''"
    by (simp add: dict_get_def)
  have t2: "dict_get ?d2 ''tool_name'' PyNone = PyStr ''Bash''"
    by (simp add: dict_get_def)
  from normalize_follows_table
         [of ?d1 "[(''pid'', PyInt 4242), (''ppid'', PyInt 4000), (''tty'', PyStr ''ttys001'')]" PyNone 123456] e1
  have s1: "build_state ?d1 [(''pid'', PyInt 4242), (''ppid'', PyInt 4000), (''tty'', PyStr ''ttys001'')]
              PyNone 123456 =
            base_state ?d1 [(''pid'', PyInt 4242), (''ppid'', PyInt 4000), (''tty'', PyStr ''ttys001'')]
              PyNone 123456 @ [(''status'', PyStr ''idle'')]"
    by blast
  from normalize_follows_table
         [of ?d2 "[(''pid'', PyInt 4242), (''ppid'', PyNone), (''tty'', PyNone)]" PyNone 5] e2
  have s2: "build_state ?d2 [(''pid'', PyInt 4242), (''ppid'', PyNone), (''tty'', PyNone)] PyNone 5 =
            base_state ?d2 [(''pid'', PyInt 4242), (''ppid'', PyNone), (''tty'', PyNone)] PyNone 5 @
            [(''status'', PyStr ''active''), (''tool'', dict_get ?d2 ''tool_name'' PyNone)]"
    by blast
  show ?thesis
    unfolding s1 s2 t2 by (simp add: base_state_def dict_get_def py_or_def)
qed

section \<open>The tool field\<close>

text \<open>
  Claim C10. For a \<open>PreToolUse\<close> or \<open>PostToolUse\<close> event the record always has a
  \<open>tool\<close> field, holding the payload's \<open>tool_name\<close>; when the payload has no
  \<open>tool_name\<close> the field is present with the value \<open>None\<close>, and the serialized
  record ends with the key \<open>tool\<close> and the value \<open>null\<close>.
\<close>

theorem tool_field_always_present:
  fixes data terminal_info :: pydict
  assumes "dict_get data ''hook_event_name'' (PyStr '''') = PyStr ''PreToolUse''
         \<or> dict_get data ''hook_event_name'' (PyStr '''') = PyStr ''PostToolUse''"
  shows \<open>map_of (build_state data terminal_info tty ts) ''tool'' =
           Some (dict_get data ''tool_name'' PyNone)
       \<and> (map_of data ''tool_name'' = None \<longrightarrow>
            map_of (build_state data terminal_info tty ts) ''tool'' = Some PyNone
          \<and> (\<exists>pre. json_dumps (PyDict (build_state data terminal_info tty ts)) =
                      pre @ '', "tool": null}''))\<close>
proof -
  let ?b = "base_state data terminal_info tty ts"
  have eq: "build_state data terminal_info tty ts =
      (?b @ [(''status'', PyStr ''active'')]) @ [(''tool'', dict_get data ''tool_name'' PyNone)]"
    using assms by (auto simp add: build_state_table_eq event_kind_of_def)
  have look: "map_of (build_state data terminal_info tty ts) ''tool'' =
      Some (dict_get data ''tool_name'' PyNone)"
    unfolding eq by (simp add: base_state_def)
  have ser: \<open>\<exists>pre. json_dumps (PyDict (build_state data terminal_info tty ts)) =
      pre @ '', "tool": null}''\<close>
    if "map_of data ''tool_name'' = None"
  proof -
    have "dict_get data ''tool_name'' PyNone = PyNone"
      using that by (simp add: dict_get_def)
    then have \<open>json_dumps (PyDict (build_state data terminal_info tty ts)) =
       (''{'' @ dumps_items (?b @ [(''status'', PyStr ''active'')])) @ '', "tool": null}''\<close>
      unfolding eq by (subst dumps_dict_snoc) (simp_all add: encode_tool_key)
    then show ?thesis by blast
  qed
  show ?thesis using look ser by (auto simp add: dict_get_def)
qed

theorem tool_field_always_present_witness:
  \<open>dict_get [(''session_id'', PyStr ''abc''), (''hook_event_name'', PyStr ''PreToolUse'')]
      ''hook_event_name'' (PyStr '''') = PyStr ''PreToolUse''
   \<and> map_of [(''session_id'', PyStr ''abc''), (''hook_event_name'', PyStr ''PreToolUse'')]
      ''tool_name'' = None
   \<and> map_of (build_state [(''session_id'', PyStr ''abc''), (''hook_event_name'', PyStr ''PreToolUse'')]
        [(''pid'', PyInt 4242), (''ppid'', PyNone), (''tty'', PyNone)] PyNone 7) ''tool'' = Some PyNone
   \<and> (\<exists>pre. json_dumps (PyDict (build_state
        [(''session_id'', PyStr ''abc''), (''hook_event_name'', PyStr ''PreToolUse'')]
        [(''pid'', PyInt 4242), (''ppid'', PyNone), (''tty'', PyNone)] PyNone 7)) =
          pre @ '', "tool": null}'')\<close>
  using tool_field_always_present
    [of "[(''session_id'', PyStr ''abc''), (''hook_event_name'', PyStr ''PreToolUse'')]"
        "[(''pid'', PyInt 4242), (''ppid'', PyNone), (''tty'', PyNone)]" PyNone 7]
  by (simp add: dict_get_def)

section \<open>Input that is not JSON\<close>

lemma main_not_json:
  "stdin_json e = Inl JSONDecodeError \<Longrightarrow> main e = \<lparr>ending = Exited 0, built = None, trace = []\<rparr>"
  by (simp add: main_def)

text \<open>
  When \<^verbatim>\<open>json.load\<close> rejects the input with \<^verbatim>\<open>JSONDecodeError\<close>, the run exits
  with status 0, builds no record and performs no socket operation: no byte is sent.
\<close>

theorem unparseable_input_exits_quietly:
  assumes "stdin_json e = Inl JSONDecodeError"
  shows "main e = \<lparr>ending = Exited 0, built = None, trace = []\<rparr>
       \<and> exit_code (ending (main e)) = 0
       \<and> built (main e) = None
       \<and> trace (main e) = []
       \<and> bytes_sent (trace (main e)) = []"
  using assms by (simp add: main_def)

theorem unparseable_input_exits_quietly_witness:
  "stdin_json env_not_json = Inl JSONDecodeError
   \<and> main env_not_json = \<lparr>ending = Exited 0, built = None, trace = []\<rparr>
   \<and> exit_code (ending (main env_not_json)) = 0
   \<and> bytes_sent (trace (main env_not_json)) = []"
proof -
  have h: "stdin_json env_not_json = Inl JSONDecodeError"
    by (simp add: env_not_json_def)
  from h unparseable_input_exits_quietly [OF h] show ?thesis by simp
qed

lemma exit_code_when_load_raises:
  "stdin_json e = Inl x \<Longrightarrow> (exit_code (ending (main e)) = 0) = (x = JSONDecodeError)"
  by (cases x) (simp_all add: main_def)

text \<open>
  Claim C3 says that every input that is not parseable as JSON ends the run
  successfully, with no delivery attempt. Input that is not valid UTF-8 is not parseable
  as JSON: reading it raises \<^verbatim>\<open>UnicodeDecodeError\<close>, a \<^verbatim>\<open>ValueError\<close> that is not
  a \<^verbatim>\<open>json.JSONDecodeError\<close>, so the handler in \<^verbatim>\<open>main\<close> lets it pass. Nothing is
  sent, but the run ends with status 1.
\<close>

theorem undecodable_input_exit_status:
  "ending (main (e\<lparr>stdin_json := Inl UnicodeDecodeError\<rparr>)) = Uncaught UnicodeDecodeError
   \<and> exit_code (ending (main (e\<lparr>stdin_json := Inl UnicodeDecodeError\<rparr>))) = 1
   \<and> built (main (e\<lparr>stdin_json := Inl UnicodeDecodeError\<rparr>)) = None
   \<and> trace (main (e\<lparr>stdin_json := Inl UnicodeDecodeError\<rparr>)) = []"
  by (simp add: main_def)

section \<open>Input that is JSON but not an object\<close>

text \<open>
  Claim C2 says that every input ends in a success exit code. The input \<^verbatim>\<open>[]\<close> is
  well-formed JSON and decodes to a list; \<^verbatim>\<open>data.get\<close> then raises
  \<^verbatim>\<open>AttributeError\<close>, which nothing handles: the run ends with status 1, whatever the
  rest of the environment is.
\<close>

theorem non_object_payload_exit_status:
  "ending (main (e\<lparr>stdin_json := Inr (PyList [])\<rparr>)) = Uncaught AttributeError
   \<and> exit_code (ending (main (e\<lparr>stdin_json := Inr (PyList [])\<rparr>))) = 1
   \<and> trace (main (e\<lparr>stdin_json := Inr (PyList [])\<rparr>)) = []"
  by (simp add: main_def)

section \<open>The identity resolver\<close>

text \<open>
  Claim C4 says that the resolver never raises, for every outcome of the process-listing
  query. When \<^verbatim>\<open>subprocess.run\<close> cannot start \<^verbatim>\<open>ps\<close> it raises an
  \<^verbatim>\<open>OSError\<close>, which the handler of \<^verbatim>\<open>get_terminal_pid\<close> does not list: the
  resolver raises it.
\<close>

theorem resolver_propagates_launch_failure:
  "get_terminal_pid (e\<lparr>ps_run := Inl OSError\<rparr>) = Inl OSError"
  by (simp add: get_terminal_pid_def terminal_pid_try_def)

text \<open>
  The rest of claim C4 holds: a timeout, output that cannot be decoded, a non-zero
  status, output of one line only, and a parent column that is not an integer all give
  the fallback identity; once \<^verbatim>\<open>ps\<close> has run to completion the resolver returns,
  with the parent process id as \<open>pid\<close>; and missing columns degrade field by field.
\<close>

lemma resolver_fallback_on_handled_exception:
  "ps_run e = Inl x \<Longrightarrow> handles [TimeoutExpired, ValueError, IndexError] x \<Longrightarrow>
   get_terminal_pid e = Inr (fallback_identity e)"
  by (simp add: get_terminal_pid_def terminal_pid_try_def)

lemma resolver_fallback_on_timeout:
  "ps_run e = Inl TimeoutExpired \<Longrightarrow> get_terminal_pid e = Inr (fallback_identity e)"
  by (simp add: get_terminal_pid_def terminal_pid_try_def)

lemma resolver_fallback_on_undecodable_output:
  "ps_run e = Inl UnicodeDecodeError \<Longrightarrow> get_terminal_pid e = Inr (fallback_identity e)"
  by (simp add: get_terminal_pid_def terminal_pid_try_def)

lemma resolver_fallback_on_status:
  "ps_run e = Inr (rc, out) \<Longrightarrow> rc \<noteq> 0 \<Longrightarrow> get_terminal_pid e = Inr (fallback_identity e)"
  by (simp add: get_terminal_pid_def terminal_pid_try_def)

lemma resolver_fallback_on_header_only:
  "ps_run e = Inr (0, out) \<Longrightarrow> length (py_split (CHR 0x0A) (py_strip out)) \<le> 1 \<Longrightarrow>
   get_terminal_pid e = Inr (fallback_identity e)"
  by (simp add: get_terminal_pid_def terminal_pid_try_def Let_def)

lemma py_int_error: "py_int s = Inl x \<Longrightarrow> x = ValueError"
  by (auto simp add: py_int_def Let_def split: if_splits prod.splits)

lemma resolver_returns_when_ps_completes:
  "ps_run e = Inr (rc, out) \<Longrightarrow>
   \<exists>parent tty. get_terminal_pid e = Inr [(''pid'', PyInt (getppid e)), (''ppid'', parent), (''tty'', tty)]"
  by (auto simp add: get_terminal_pid_def terminal_pid_try_def fallback_identity_def Let_def
        split: sum.splits dest: py_int_error)

lemma resolver_degrades_by_column:
  assumes "ps_run e = Inr (0, out)"
    and "py_split (CHR 0x0A) (py_strip out) = header # line # others"
  shows "py_split_ws 3 line = [] \<Longrightarrow> get_terminal_pid e = Inr (fallback_identity e)"
    and "py_split_ws 3 line = [a] \<Longrightarrow> get_terminal_pid e = Inr (fallback_identity e)"
    and "py_split_ws 3 line = [a, b] \<Longrightarrow> py_int b = Inr n \<Longrightarrow>
         get_terminal_pid e = Inr [(''pid'', PyInt (getppid e)), (''ppid'', PyInt n), (''tty'', PyNone)]"
    and "py_split_ws 3 line = a # b # c # rest \<Longrightarrow> py_int b = Inr n \<Longrightarrow>
         get_terminal_pid e = Inr [(''pid'', PyInt (getppid e)), (''ppid'', PyInt n), (''tty'', PyStr c)]"
    and "py_split_ws 3 line = a # b # rest \<Longrightarrow> py_int b = Inl x \<Longrightarrow>
         get_terminal_pid e = Inr (fallback_identity e)"
  using assms
  by (auto simp add: get_terminal_pid_def terminal_pid_try_def fallback_identity_def Let_def
        dest: py_int_error)

section \<open>Delivery\<close>

lemma isinstance_OSError: "isinstance x OSError = (x = OSError)"
  by (cases x) simp_all

lemma send_to_app_all_ok:
  "sock_socket e = None \<Longrightarrow> sock_connect e = None \<Longrightarrow> sock_sendall e = None \<Longrightarrow>
   sock_close e = None \<Longrightarrow>
   send_to_app e state =
     (Inr True, [Socket, SetTimeout TIMEOUT_SECONDS, Connect SOCKET_PATH,
                 Write (wire_record state), Close])"
  by (simp add: send_to_app_def send_try_def)

lemma send_to_app_True_iff:
  "(fst (send_to_app e state) = Inr True) =
   (sock_socket e = None \<and> sock_connect e = None \<and> sock_sendall e = None \<and> sock_close e = None)"
  by (auto simp add: send_to_app_def send_try_def split: option.splits)

lemma send_to_app_swallows:
  assumes "socket_errors_only e"
  shows "fst (send_to_app e state) =
     Inr (sock_socket e = None \<and> sock_connect e = None \<and> sock_sendall e = None \<and> sock_close e = None)"
  using assms
  by (auto simp add: send_to_app_def send_try_def socket_errors_only_def socket_error_def
        isinstance_OSError split: option.splits)

lemma send_to_app_no_retry:
  "length (filter is_connect (snd (send_to_app e state))) \<le> 1"
  "length (filter is_write (snd (send_to_app e state))) \<le> 1"
  by (auto simp add: send_to_app_def send_try_def split: option.splits)

lemma get_tty_cong:
  "stdin_ttyname e' = stdin_ttyname e \<Longrightarrow> get_tty e' = get_tty e"
  by (simp add: get_tty_def)

lemma get_terminal_pid_cong:
  assumes "ps_run e' = ps_run e" and "getppid e' = getppid e"
  shows "get_terminal_pid e' = get_terminal_pid e"
proof -
  have "terminal_pid_try e' = terminal_pid_try e"
    using assms by (simp add: terminal_pid_try_def)
  moreover have "fallback_identity e' = fallback_identity e"
    using assms by (simp add: fallback_identity_def)
  ultimately show ?thesis
    by (simp add: get_terminal_pid_def split: sum.splits option.splits)
qed

lemma ending_main:
  assumes "socket_errors_only e"
  shows "ending (main e) =
     (case stdin_json e of
        Inl x \<Rightarrow> if x = JSONDecodeError then Exited 0 else Uncaught x
      | Inr (PyDict data) \<Rightarrow>
          (case get_terminal_pid e of
             Inl x \<Rightarrow> Uncaught x
           | Inr ti \<Rightarrow> (case get_tty e of Inl x \<Rightarrow> Uncaught x | Inr tty \<Rightarrow> Exited 0))
      | Inr other \<Rightarrow> Uncaught AttributeError)"
proof -
  have nr: "send_to_app e state \<noteq> (Inl x, tr)" for state x tr
    using send_to_app_swallows [OF assms, of state] by auto
  show ?thesis
    by (auto simp add: main_def Let_def nr split: sum.splits pyval.splits prod.splits)
qed

lemma built_main:
  "built (main e) =
     (case stdin_json e of
        Inl x \<Rightarrow> None
      | Inr (PyDict data) \<Rightarrow>
          (case get_terminal_pid e of
             Inl x \<Rightarrow> None
           | Inr ti \<Rightarrow>
              (case get_tty e of
                 Inl x \<Rightarrow> None
               | Inr tty \<Rightarrow> Some (build_state data ti tty (elapsed_ms e))))
      | Inr other \<Rightarrow> None)"
  by (auto simp add: main_def Let_def split: sum.splits pyval.splits prod.splits)

lemma trace_main_object:
  "stdin_json e = Inr (PyDict data) \<Longrightarrow> get_terminal_pid e = Inr ti \<Longrightarrow> get_tty e = Inr tty \<Longrightarrow>
   trace (main e) = snd (send_to_app e (build_state data ti tty (elapsed_ms e)))"
  by (auto simp add: main_def Let_def split: sum.splits prod.splits)

lemma socket_first: "Socket \<in> set (snd (send_to_app e state))"
  by (auto simp add: send_to_app_def send_try_def split: option.splits)

text \<open>
  Claim C5. When the socket calls raise nothing but \<^verbatim>\<open>OSError\<close>,
  \<^verbatim>\<open>send_to_app\<close> never raises; it returns \<open>True\<close> exactly when creating,
  connecting, writing and closing all succeeded, and then the whole record was written;
  it returns \<open>False\<close> exactly when one of them failed; it connects at most once and
  writes at most once; and two runs that differ only in what the socket calls do end the
  same way, so the result of the delivery never reaches the exit code.
\<close>

theorem delivery_failures_are_swallowed:
  assumes "socket_errors_only e"
  shows "(\<exists>sent. fst (send_to_app e state) = Inr sent)
       \<and> (fst (send_to_app e state) = Inr True) =
           (sock_socket e = None \<and> sock_connect e = None \<and> sock_sendall e = None \<and>
            sock_close e = None)
       \<and> (fst (send_to_app e state) = Inr False) =
           (sock_socket e \<noteq> None \<or> sock_connect e \<noteq> None \<or> sock_sendall e \<noteq> None \<or>
            sock_close e \<noteq> None)
       \<and> (fst (send_to_app e state) = Inr True \<longrightarrow>
            bytes_sent (snd (send_to_app e state)) = wire_record state)
       \<and> length (filter is_connect (snd (send_to_app e state))) \<le> 1
       \<and> length (filter is_write (snd (send_to_app e state))) \<le> 1
       \<and> (socket_errors_only e' \<and> stdin_json e' = stdin_json e \<and> getppid e' = getppid e \<and>
          ps_run e' = ps_run e \<and> stdin_ttyname e' = stdin_ttyname e \<longrightarrow>
            ending (main e') = ending (main e))"
proof -
  note sw = send_to_app_swallows [OF assms, of state]
  have a: "\<exists>sent. fst (send_to_app e state) = Inr sent"
    using sw by blast
  have b: "(fst (send_to_app e state) = Inr True) =
           (sock_socket e = None \<and> sock_connect e = None \<and> sock_sendall e = None \<and>
            sock_close e = None)"
    by (rule send_to_app_True_iff)
  have c: "(fst (send_to_app e state) = Inr False) =
           (sock_socket e \<noteq> None \<or> sock_connect e \<noteq> None \<or> sock_sendall e \<noteq> None \<or>
            sock_close e \<noteq> None)"
    unfolding sw by auto
  have d: "bytes_sent (snd (send_to_app e state)) = wire_record state"
    if "fst (send_to_app e state) = Inr True"
    using that send_to_app_all_ok [of e state] unfolding send_to_app_True_iff by simp
  have f: "ending (main e') = ending (main e)"
    if "socket_errors_only e'" "stdin_json e' = stdin_json e" "getppid e' = getppid e"
       "ps_run e' = ps_run e" "stdin_ttyname e' = stdin_ttyname e"
    using that
    by (simp add: ending_main [OF assms] ending_main [OF that(1)]
          get_tty_cong [of e' e] get_terminal_pid_cong [of e' e]
          split: sum.splits pyval.splits)
  from a b c d f send_to_app_no_retry [of e state] show ?thesis by blast
qed

section \<open>The serialized record is one line of printable ASCII\<close>

lemma digit_char_printable: "d < 16 \<Longrightarrow> printable (digit_char d)"
proof -
  assume "d < 16"
  then have "digit_char d \<in> set ''0123456789abcdef''"
    unfolding digit_char_def by (intro nth_mem) simp
  then show ?thesis by (auto simp add: printable_def)
qed

lemma str_nat_printable: "c \<in> set (str_nat n) \<Longrightarrow> printable c"
proof (induction n rule: str_nat.induct)
  case (1 n)
  show ?case
  proof (cases "n < 10")
    case True
    with 1(2) show ?thesis by (subst (asm) str_nat.simps) (simp add: digit_char_printable)
  next
    case False
    with 1 show ?thesis by (subst (asm) (2) str_nat.simps) (auto simp add: digit_char_printable)
  qed
qed

lemma printable_literals:
  "printable (CHR 0x5C)" "printable (CHR 0x22)" "printable (CHR ''b'')" "printable (CHR ''f'')"
  "printable (CHR ''n'')" "printable (CHR ''r'')" "printable (CHR ''t'')" "printable (CHR ''u'')"
  "printable (CHR ''-'')" "printable (CHR ''['')" "printable (CHR '']'')" "printable (CHR ''{'')"
  "printable (CHR ''}'')" "printable (CHR '','')" "printable (CHR '' '')" "printable (CHR '':'')"
  "printable (CHR ''l'')" "printable (CHR ''e'')" "printable (CHR ''a'')" "printable (CHR ''s'')"
  by (simp_all add: printable_def)

lemma str_int_printable: "c \<in> set (str_int i) \<Longrightarrow> printable c"
  by (auto simp add: str_int_def printable_literals dest: str_nat_printable split: if_splits)

lemma hex4_printable: "c \<in> set (hex4 n) \<Longrightarrow> printable c"
  by (auto simp add: hex4_def digit_char_printable)

lemma printableI: "32 \<le> (of_char c :: nat) \<Longrightarrow> (of_char c :: nat) \<le> 126 \<Longrightarrow> printable c"
  by (simp add: printable_def)

lemma escape_char_printable: "c \<in> set (escape_char x) \<Longrightarrow> printable c"
  unfolding escape_char_def Let_def
  by (auto simp only: set_simps insert_iff empty_iff printable_literals
        split: if_split_asm intro: printableI dest: hex4_printable)

lemma encode_basestring_printable: "c \<in> set (encode_basestring_ascii s) \<Longrightarrow> printable c"
  by (auto simp add: encode_basestring_ascii_def printable_literals dest: escape_char_printable)

lemma json_dumps_printable:
  "floats_ok v \<Longrightarrow> c \<in> set (json_dumps v) \<Longrightarrow> printable c"
  "floats_ok_elems xs \<Longrightarrow> c \<in> set (dumps_elems xs) \<Longrightarrow> printable c"
  "floats_ok_items d \<Longrightarrow> c \<in> set (dumps_items d) \<Longrightarrow> printable c"
proof (induction v and xs and d rule: json_dumps_dumps_elems_dumps_items.induct)
  case (3 i)
  then show ?case by (simp add: str_int_printable)
next
  case (4 r)
  then show ?case by (simp add: list_all_iff)
next
  case (5 s)
  then show ?case by (simp add: encode_basestring_printable)
next
  case (12 k v)
  then show ?case by (auto simp add: printable_literals dest: encode_basestring_printable)
next
  case (13 k v kv kvs)
  then show ?case by (auto simp add: printable_literals dest: encode_basestring_printable)
qed (auto simp add: printable_literals split: if_splits)

lemma utf8_char_printable: "printable c \<Longrightarrow> utf8_char c = [c]"
  by (simp add: utf8_char_def printable_def Let_def)

lemma py_encode_printable: "(\<And>c. c \<in> set s \<Longrightarrow> printable c) \<Longrightarrow> py_encode s = s"
  by (induction s) (simp_all add: py_encode_def utf8_char_printable)

lemma printable_not_newline: "printable c \<Longrightarrow> c \<noteq> CHR 0x0A"
  by (auto simp add: printable_def)

lemma wire_record_ascii:
  assumes "floats_ok (PyDict state)"
  shows "wire_record state = json_dumps (PyDict state) @ [CHR 0x0A]"
    and "CHR 0x0A \<notin> set (json_dumps (PyDict state))"
    and "count_list (wire_record state) (CHR 0x0A) = 1"
proof -
  have p: "printable c" if "c \<in> set (json_dumps (PyDict state))" for c
    using json_dumps_printable(1) [OF assms that] .
  show eq: "wire_record state = json_dumps (PyDict state) @ [CHR 0x0A]"
    unfolding wire_record_def using py_encode_printable [of "json_dumps (PyDict state)"] p by simp
  show nl: "CHR 0x0A \<notin> set (json_dumps (PyDict state))"
    using p printable_not_newline by blast
  show "count_list (wire_record state) (CHR 0x0A) = 1"
    unfolding eq using nl by (simp add: count_list_0_iff)
qed

text \<open>
  Claim C7. When \<^verbatim>\<open>send_to_app\<close> returns \<open>True\<close>, the socket was connected once
  and written once, and the bytes written are the serialized state object followed by
  one newline; the serialized object itself contains no newline, so the record is
  exactly one line.
\<close>

theorem successful_delivery_writes_one_line:
  assumes "fst (send_to_app e state) = Inr True" and "floats_ok (PyDict state)"
  shows "snd (send_to_app e state) =
           [Socket, SetTimeout TIMEOUT_SECONDS, Connect SOCKET_PATH,
            Write (json_dumps (PyDict state) @ [CHR 0x0A]), Close]
       \<and> length (filter is_connect (snd (send_to_app e state))) = 1
       \<and> length (filter is_write (snd (send_to_app e state))) = 1
       \<and> bytes_sent (snd (send_to_app e state)) = json_dumps (PyDict state) @ [CHR 0x0A]
       \<and> CHR 0x0A \<notin> set (json_dumps (PyDict state))
       \<and> count_list (bytes_sent (snd (send_to_app e state))) (CHR 0x0A) = 1"
proof -
  have ok: "sock_socket e = None" "sock_connect e = None" "sock_sendall e = None"
    "sock_close e = None"
    using assms(1) unfolding send_to_app_True_iff by simp_all
  have tr: "snd (send_to_app e state) =
      [Socket, SetTimeout TIMEOUT_SECONDS, Connect SOCKET_PATH, Write (wire_record state), Close]"
    using send_to_app_all_ok [OF ok, of state] by simp
  note w = wire_record_ascii [OF assms(2)]
  show ?thesis
    unfolding tr using w by simp
qed

text \<open>
  The hypothesis on floats is met by every state object \<open>main\<close> builds from a payload
  that meets it, so a run whose socket calls all succeed sends exactly one line.
\<close>

lemma floats_ok_dict_get:
  "floats_ok_items d \<Longrightarrow> floats_ok dflt \<Longrightarrow> floats_ok (dict_get d k dflt)"
  by (induction d) (auto simp add: dict_get_def)

lemma floats_ok_items_append:
  "floats_ok_items (d @ d') = (floats_ok_items d \<and> floats_ok_items d')"
  by (induction d) auto

lemma floats_ok_terminal_pid:
  "get_terminal_pid e = Inr ti \<Longrightarrow> floats_ok_items ti"
  by (auto simp add: get_terminal_pid_def terminal_pid_try_def fallback_identity_def Let_def
        split: sum.splits option.splits if_splits prod.splits)

lemma floats_ok_tty: "get_tty e = Inr tty \<Longrightarrow> floats_ok tty"
  by (auto simp add: get_tty_def split: sum.splits if_splits)

lemma floats_ok_build_state:
  assumes "floats_ok_items data" and "floats_ok_items ti" and "floats_ok tty"
  shows "floats_ok_items (build_state data ti tty ts)"
proof -
  have "floats_ok_items (base_state data ti tty ts)"
    using assms by (simp add: base_state_def floats_ok_dict_get py_or_def)
  moreover have "floats_ok_items (table_extra k (dict_get data ''tool_name'' PyNone))" for k
    using assms(1) by (cases k) (simp_all add: floats_ok_dict_get)
  ultimately show ?thesis
    by (simp add: build_state_table_eq floats_ok_items_append)
qed

lemma main_delivers_one_line:
  assumes "stdin_json e = Inr (PyDict data)" and "floats_ok (PyDict data)"
    and "get_terminal_pid e = Inr ti" and "get_tty e = Inr tty"
    and "sock_socket e = None" and "sock_connect e = None" and "sock_sendall e = None"
    and "sock_close e = None"
  shows "bytes_sent (trace (main e)) =
           json_dumps (PyDict (build_state data ti tty (elapsed_ms e))) @ [CHR 0x0A]"
    and "CHR 0x0A \<notin> set (json_dumps (PyDict (build_state data ti tty (elapsed_ms e))))"
proof -
  let ?st = "build_state data ti tty (elapsed_ms e)"
  have ok: "floats_ok (PyDict ?st)"
    using assms(2) floats_ok_terminal_pid [OF assms(3)] floats_ok_tty [OF assms(4)]
    by (simp add: floats_ok_build_state)
  have t: "trace (main e) = snd (send_to_app e ?st)"
    using assms(1,3,4) by (rule trace_main_object)
  show "bytes_sent (trace (main e)) = json_dumps (PyDict ?st) @ [CHR 0x0A]"
    unfolding t using send_to_app_all_ok [OF assms(5-8), of ?st] wire_record_ascii(1) [OF ok]
    by simp
  show "CHR 0x0A \<notin> set (json_dumps (PyDict ?st))"
    by (rule wire_record_ascii(2) [OF ok])
qed

section \<open>The tty field\<close>

text \<open>
  In the state object the \<open>tty\<close> field is \<^verbatim>\<open>tty or terminal_info.get('tty')\<close>:
  the first operand when it is true, the second otherwise.
\<close>

lemma tty_field_py_or:
  "dict_get (build_state data terminal_info tty ts) ''tty'' PyNone =
     py_or tty (dict_get terminal_info ''tty'' PyNone)"
  by (simp add: build_state_table_eq dict_get_base_state)

text \<open>
  \<^verbatim>\<open>get_tty\<close> returns \<^verbatim>\<open>None\<close> or the name \<^verbatim>\<open>os.ttyname\<close> gave, and
  \<^verbatim>\<open>os.ttyname\<close> gives the path of a terminal device, never the empty string.
\<close>

lemma get_tty_value:
  assumes "get_tty e = Inr tty" and "stdin_ttyname e \<noteq> Inr []"
  shows "tty = PyNone \<or> (\<exists>name. name \<noteq> [] \<and> tty = PyStr name)"
  using assms by (auto simp add: get_tty_def split: sum.splits if_splits)

text \<open>
  Claim C6. In every run, the \<open>tty\<close> field of the record is the tty override (what
  \<^verbatim>\<open>get_tty\<close> returned) when the override is present, and the tty of the resolved
  identity otherwise: the rule of the specification. The record of the run is the one
  built with that override.
\<close>

theorem tty_override_when_present:
  assumes "get_tty e = Inr tty" and "stdin_ttyname e \<noteq> Inr []"
  shows "dict_get (build_state data terminal_info tty ts) ''tty'' PyNone =
           spec_tty tty (dict_get terminal_info ''tty'' PyNone)
       \<and> (tty \<noteq> PyNone \<longrightarrow>
            dict_get (build_state data terminal_info tty ts) ''tty'' PyNone = tty)
       \<and> (tty = PyNone \<longrightarrow>
            dict_get (build_state data terminal_info tty ts) ''tty'' PyNone =
              dict_get terminal_info ''tty'' PyNone)
       \<and> (stdin_json e = Inr (PyDict data) \<and> get_terminal_pid e = Inr terminal_info \<longrightarrow>
            built (main e) = Some (build_state data terminal_info tty (elapsed_ms e)))"
proof -
  from get_tty_value [OF assms]
  have "truthy tty = (tty \<noteq> PyNone)"
    by auto
  then have a: "dict_get (build_state data terminal_info tty ts) ''tty'' PyNone =
           spec_tty tty (dict_get terminal_info ''tty'' PyNone)"
    by (simp add: tty_field_py_or py_or_def spec_tty_def)
  have b: "built (main e) = Some (build_state data terminal_info tty (elapsed_ms e))"
    if "stdin_json e = Inr (PyDict data)" "get_terminal_pid e = Inr terminal_info"
    using that assms(1) by (simp add: built_main)
  have c: "dict_get (build_state data terminal_info tty ts) ''tty'' PyNone = tty"
    if "tty \<noteq> PyNone"
    using a that by (simp add: spec_tty_def)
  have d: "dict_get (build_state data terminal_info tty ts) ''tty'' PyNone =
      dict_get terminal_info ''tty'' PyNone"
    if "tty = PyNone"
    using a that by (simp add: spec_tty_def)
  from a b c d show ?thesis
    by blast
qed

section \<open>Determinism and defaults\<close>

lemma dict_set_timestamp_build_state:
  "dict_set (build_state data ti tty t1) ''timestamp'' v =
   dict_set (build_state data ti tty t2) ''timestamp'' v"
  by (simp add: build_state_table_eq base_state_def)

text \<open>
  Claim C8. Two runs with the same decoded input, the same resolved identity and the
  same tty build the same record when the clock reads the same, whatever else differs
  between them (what the socket does, for one), so their serialized records are
  byte-identical; with different clock readings the serialized records are
  byte-identical once the \<open>timestamp\<close> field of both is set to a common value.
\<close>

theorem normalization_is_deterministic:
  assumes "stdin_json e1 = stdin_json e2"
    and "get_terminal_pid e1 = get_terminal_pid e2"
    and "get_tty e1 = get_tty e2"
  shows "(elapsed_ms e1 = elapsed_ms e2 \<longrightarrow>
            built (main e1) = built (main e2) \<and>
            map_option wire_record (built (main e1)) = map_option wire_record (built (main e2)))
       \<and> map_option (\<lambda>state. wire_record (dict_set state ''timestamp'' (PyInt t))) (built (main e1)) =
         map_option (\<lambda>state. wire_record (dict_set state ''timestamp'' (PyInt t))) (built (main e2))
       \<and> (built (main e1) = None) = (built (main e2) = None)"
proof -
  have a: "built (main e1) = built (main e2)" if "elapsed_ms e1 = elapsed_ms e2"
    using assms that by (simp add: built_main split: sum.splits pyval.splits)
  have b: "map_option (\<lambda>state. wire_record (dict_set state ''timestamp'' (PyInt t))) (built (main e1)) =
         map_option (\<lambda>state. wire_record (dict_set state ''timestamp'' (PyInt t))) (built (main e2))"
    using assms
    by (simp add: built_main dict_set_timestamp_build_state [of _ _ _ "elapsed_ms e1" _ "elapsed_ms e2"]
          split: sum.splits pyval.splits)
  have c: "(built (main e1) = None) = (built (main e2) = None)"
    using assms by (simp add: built_main split: sum.splits pyval.splits)
  from a b c show ?thesis by simp
qed

text \<open>
  For a payload that is a JSON object, once the identity and the tty are resolved, a
  record is built and handed to \<^verbatim>\<open>send_to_app\<close>, which attempts the delivery (it
  creates the socket). A missing \<open>session_id\<close> becomes \<open>unknown\<close>, a missing
  \<open>cwd\<close> the empty string, and a missing \<open>hook_event_name\<close> the empty string, for
  which the record has status \<open>active\<close> and no extra field.
\<close>

theorem missing_fields_get_defaults:
  assumes "stdin_json e = Inr (PyDict data)"
    and "get_terminal_pid e = Inr terminal_info"
    and "get_tty e = Inr tty"
  shows "built (main e) = Some (build_state data terminal_info tty (elapsed_ms e))
       \<and> trace (main e) = snd (send_to_app e (build_state data terminal_info tty (elapsed_ms e)))
       \<and> Socket \<in> set (trace (main e))
       \<and> (map_of data ''session_id'' = None \<longrightarrow>
            dict_get (build_state data terminal_info tty (elapsed_ms e)) ''session_id'' PyNone =
              PyStr ''unknown'')
       \<and> (map_of data ''cwd'' = None \<longrightarrow>
            dict_get (build_state data terminal_info tty (elapsed_ms e)) ''cwd'' PyNone = PyStr '''')
       \<and> (map_of data ''hook_event_name'' = None \<longrightarrow>
            dict_get (build_state data terminal_info tty (elapsed_ms e)) ''event'' PyNone = PyStr '''' \<and>
            dict_get (build_state data terminal_info tty (elapsed_ms e)) ''status'' PyNone =
              PyStr ''active'' \<and>
            dict_keys (build_state data terminal_info tty (elapsed_ms e)) =
              [''session_id'', ''cwd'', ''event'', ''timestamp'', ''pid'', ''ppid'', ''tty'', ''status''])"
proof -
  let ?st = "build_state data terminal_info tty (elapsed_ms e)"
  have b: "built (main e) = Some ?st"
    using assms by (simp add: built_main)
  have t: "trace (main e) = snd (send_to_app e ?st)"
    using assms by (rule trace_main_object)
  have s: "Socket \<in> set (trace (main e))"
    unfolding t by (rule socket_first)
  have d1: "dict_get ?st ''session_id'' PyNone = PyStr ''unknown''" if "map_of data ''session_id'' = None"
    using that by (simp add: build_state_table_eq dict_get_base_state) (simp add: dict_get_def)
  have d2: "dict_get ?st ''cwd'' PyNone = PyStr ''''" if "map_of data ''cwd'' = None"
    using that by (simp add: build_state_table_eq dict_get_base_state) (simp add: dict_get_def)
  have ev: "dict_get data ''hook_event_name'' (PyStr '''') = PyStr ''''"
    if "map_of data ''hook_event_name'' = None"
    using that by (simp add: dict_get_def)
  have k: "event_kind_of (PyStr '''') = Other (PyStr '''')"
    by (simp add: event_kind_of_def)
  have d3: "dict_get ?st ''event'' PyNone = PyStr '''' \<and> dict_get ?st ''status'' PyNone = PyStr ''active'' \<and>
      dict_keys ?st = [''session_id'', ''cwd'', ''event'', ''timestamp'', ''pid'', ''ppid'', ''tty'', ''status'']"
    if "map_of data ''hook_event_name'' = None"
    using ev [OF that]
    by (simp add: build_state_table_eq dict_get_base_state k)
       (simp add: dict_get_def dict_keys_def base_state_def)
  from b t s d1 d2 d3 show ?thesis by blast
qed

text \<open>
  Claim C9 says that every payload that is a JSON object, whatever fields it omits,
  gets a record built and a delivery attempted. With the payload \<^verbatim>\<open>{}\<close> on a machine
  where \<^verbatim>\<open>ps\<close> cannot be started, \<^verbatim>\<open>get_terminal_pid\<close> raises \<^verbatim>\<open>OSError\<close>
  before the state object is built: no record, no socket operation, exit status 1.
\<close>

theorem object_payload_without_ps:
  "built (main (e\<lparr>stdin_json := Inr (PyDict []), ps_run := Inl OSError\<rparr>)) = None
   \<and> trace (main (e\<lparr>stdin_json := Inr (PyDict []), ps_run := Inl OSError\<rparr>)) = []
   \<and> ending (main (e\<lparr>stdin_json := Inr (PyDict []), ps_run := Inl OSError\<rparr>)) = Uncaught OSError
   \<and> exit_code (ending (main (e\<lparr>stdin_json := Inr (PyDict []), ps_run := Inl OSError\<rparr>))) = 1"
  by (simp add: main_def get_terminal_pid_def terminal_pid_try_def)

section \<open>The example runs\<close>

lemma get_terminal_pid_listening:
  "get_terminal_pid env_listening =
     Inr [(''pid'', PyInt 4242), (''ppid'', PyInt 4000), (''tty'', PyStr ''ttys001'')]"
  by code_simp

lemma get_tty_listening: "get_tty env_listening = Inr PyNone"
  by code_simp

lemma socket_errors_only_examples:
  "socket_errors_only env_listening" "socket_errors_only env_no_endpoint"
  by (simp_all add: socket_errors_only_def env_listening_def env_no_endpoint_def)

lemma str_int_examples:
  "str_int 123456 = ''123456''" "str_int 4242 = ''4242''" "str_int 4000 = ''4000''"
  by (simp_all add: str_int_def str_nat.simps digit_char_def)

lemma stop_record_dumps:
  \<open>json_dumps (PyDict stop_record) =
    ''{"session_id": "abc", "cwd": "/tmp", "event": "Stop", "timestamp": 123456, "pid": 4242, "ppid": 4000, "tty": "ttys001", "status": "idle"}''\<close>
  by (simp add: stop_record_def str_int_examples encode_basestring_ascii_def escape_char_def)

lemma stop_record_built:
  "build_state [(''session_id'', PyStr ''abc''), (''hook_event_name'', PyStr ''Stop''), (''cwd'', PyStr ''/tmp'')]
     [(''pid'', PyInt 4242), (''ppid'', PyInt 4000), (''tty'', PyStr ''ttys001'')] PyNone 123456 = stop_record"
  by (simp add: build_state_def base_state_def stop_record_def dict_get_def py_or_def)

theorem delivery_failures_are_swallowed_witness:
  "socket_errors_only env_no_endpoint
   \<and> fst (send_to_app env_no_endpoint stop_record) = Inr False
   \<and> length (filter is_connect (snd (send_to_app env_no_endpoint stop_record))) \<le> 1
   \<and> socket_errors_only env_listening
   \<and> fst (send_to_app env_listening stop_record) = Inr True
   \<and> bytes_sent (snd (send_to_app env_listening stop_record)) = wire_record stop_record
   \<and> ending (main env_listening) = ending (main env_no_endpoint)"
proof -
  have h: "socket_errors_only env_no_endpoint"
    by (rule socket_errors_only_examples)
  have h': "socket_errors_only env_listening \<and> stdin_json env_listening = stdin_json env_no_endpoint \<and>
      getppid env_listening = getppid env_no_endpoint \<and> ps_run env_listening = ps_run env_no_endpoint \<and>
      stdin_ttyname env_listening = stdin_ttyname env_no_endpoint"
    by (simp add: socket_errors_only_examples env_no_endpoint_def)
  note t = delivery_failures_are_swallowed [OF h, of stop_record env_listening]
  have f: "sock_connect env_no_endpoint \<noteq> None"
    by (simp add: env_no_endpoint_def)
  from t f have "fst (send_to_app env_no_endpoint stop_record) = Inr False" by blast
  moreover from t h' have "ending (main env_listening) = ending (main env_no_endpoint)" by blast
  moreover from t have "length (filter is_connect (snd (send_to_app env_no_endpoint stop_record))) \<le> 1"
    by blast
  moreover have "fst (send_to_app env_listening stop_record) = Inr True
      \<and> bytes_sent (snd (send_to_app env_listening stop_record)) = wire_record stop_record"
  proof -
    have g: "sock_socket env_listening = None \<and> sock_connect env_listening = None \<and>
        sock_sendall env_listening = None \<and> sock_close env_listening = None"
      by (simp add: env_listening_def)
    have h2: "socket_errors_only env_listening"
      by (rule socket_errors_only_examples)
    from delivery_failures_are_swallowed [OF h2, of stop_record env_listening] g
    show ?thesis by blast
  qed
  ultimately show ?thesis using h h' by blast
qed

theorem successful_delivery_writes_one_line_witness:
  \<open>fst (send_to_app env_listening stop_record) = Inr True
   \<and> floats_ok (PyDict stop_record)
   \<and> bytes_sent (snd (send_to_app env_listening stop_record)) =
       ''{"session_id": "abc", "cwd": "/tmp", "event": "Stop", "timestamp": 123456, "pid": 4242, "ppid": 4000, "tty": "ttys001", "status": "idle"}'' @ [CHR 0x0A]
   \<and> count_list (bytes_sent (snd (send_to_app env_listening stop_record))) (CHR 0x0A) = 1\<close>
proof -
  have h1: "fst (send_to_app env_listening stop_record) = Inr True"
    unfolding send_to_app_True_iff by (simp add: env_listening_def)
  have h2: "floats_ok (PyDict stop_record)"
    by (simp add: stop_record_def)
  from successful_delivery_writes_one_line [OF h1 h2] h1 h2 show ?thesis
    by (simp only: stop_record_dumps) simp
qed

lemma resolver_examples:
  "get_terminal_pid env_no_endpoint = get_terminal_pid env_listening"
  "get_terminal_pid env_empty_object = get_terminal_pid env_listening"
  by (rule get_terminal_pid_cong; simp add: env_no_endpoint_def env_empty_object_def)+

lemma tty_examples:
  "get_tty env_no_endpoint = get_tty env_listening"
  "get_tty env_empty_object = get_tty env_listening"
  by (rule get_tty_cong; simp add: env_no_endpoint_def env_empty_object_def)+

theorem normalization_is_deterministic_witness:
  "stdin_json env_listening = stdin_json env_no_endpoint
   \<and> get_terminal_pid env_listening = get_terminal_pid env_no_endpoint
   \<and> get_tty env_listening = get_tty env_no_endpoint
   \<and> elapsed_ms env_listening = elapsed_ms env_no_endpoint
   \<and> built (main env_listening) = Some stop_record
   \<and> built (main env_listening) = built (main env_no_endpoint)
   \<and> map_option wire_record (built (main env_listening)) =
       map_option wire_record (built (main env_no_endpoint))"
proof -
  have h1: "stdin_json env_listening = stdin_json env_no_endpoint"
    by (simp add: env_no_endpoint_def)
  have h2: "get_terminal_pid env_listening = get_terminal_pid env_no_endpoint"
    by (simp add: resolver_examples)
  have h3: "get_tty env_listening = get_tty env_no_endpoint"
    by (simp add: tty_examples)
  have h4: "elapsed_ms env_listening = elapsed_ms env_no_endpoint"
    by (simp add: env_no_endpoint_def)
  have "stdin_json env_listening =
      Inr (PyDict [(''session_id'', PyStr ''abc''), (''hook_event_name'', PyStr ''Stop''),
                   (''cwd'', PyStr ''/tmp'')])"
    and "elapsed_ms env_listening = 123456"
    by (simp_all add: env_listening_def)
  then have b: "built (main env_listening) = Some stop_record"
    by (simp add: built_main get_terminal_pid_listening get_tty_listening stop_record_built)
  note t = normalization_is_deterministic [OF h1 h2 h3, of 0]
  from t h1 h2 h3 h4 b show ?thesis
    by blast
qed

theorem missing_fields_get_defaults_witness:
  "stdin_json env_empty_object = Inr (PyDict [])
   \<and> get_terminal_pid env_empty_object =
       Inr [(''pid'', PyInt 4242), (''ppid'', PyInt 4000), (''tty'', PyStr ''ttys001'')]
   \<and> get_tty env_empty_object = Inr PyNone
   \<and> map_of ([] :: pydict) ''session_id'' = None
   \<and> built (main env_empty_object) =
       Some (build_state [] [(''pid'', PyInt 4242), (''ppid'', PyInt 4000), (''tty'', PyStr ''ttys001'')]
               PyNone 123999)
   \<and> Socket \<in> set (trace (main env_empty_object))
   \<and> dict_get (build_state [] [(''pid'', PyInt 4242), (''ppid'', PyInt 4000), (''tty'', PyStr ''ttys001'')]
         PyNone 123999) ''session_id'' PyNone = PyStr ''unknown''
   \<and> dict_get (build_state [] [(''pid'', PyInt 4242), (''ppid'', PyInt 4000), (''tty'', PyStr ''ttys001'')]
         PyNone 123999) ''cwd'' PyNone = PyStr ''''
   \<and> dict_get (build_state [] [(''pid'', PyInt 4242), (''ppid'', PyInt 4000), (''tty'', PyStr ''ttys001'')]
         PyNone 123999) ''status'' PyNone = PyStr ''active''"
proof -
  have h1: "stdin_json env_empty_object = Inr (PyDict [])"
    by (simp add: env_empty_object_def)
  have h2: "get_terminal_pid env_empty_object =
       Inr [(''pid'', PyInt 4242), (''ppid'', PyInt 4000), (''tty'', PyStr ''ttys001'')]"
    by (simp add: resolver_examples get_terminal_pid_listening)
  have h3: "get_tty env_empty_object = Inr PyNone"
    by (simp add: tty_examples get_tty_listening)
  have h4: "elapsed_ms env_empty_object = 123999"
    by (simp add: env_empty_object_def)
  have m: "map_of ([] :: pydict) ''session_id'' = None" "map_of ([] :: pydict) ''cwd'' = None"
    "map_of ([] :: pydict) ''hook_event_name'' = None"
    by simp_all
  note t = missing_fields_get_defaults [OF h1 h2 h3, unfolded h4]
  from t m h1 h2 h3 show ?thesis
    by blast
qed

lemma get_tty_on_terminal: "get_tty env_on_terminal = Inr (PyStr ''/dev/ttys002'')"
  by (simp add: get_tty_def env_on_terminal_def)

theorem tty_override_when_present_witness:
  "get_tty env_on_terminal = Inr (PyStr ''/dev/ttys002'')
   \<and> stdin_ttyname env_on_terminal \<noteq> Inr []
   \<and> dict_get (build_state [] [(''pid'', PyInt 4242), (''ppid'', PyInt 4000), (''tty'', PyStr ''ttys001'')]
         (PyStr ''/dev/ttys002'') 0) ''tty'' PyNone = PyStr ''/dev/ttys002''
   \<and> get_tty env_listening = Inr PyNone
   \<and> stdin_ttyname env_listening \<noteq> Inr []
   \<and> dict_get (build_state [] [(''pid'', PyInt 4242), (''ppid'', PyInt 4000), (''tty'', PyStr ''ttys001'')]
         PyNone 0) ''tty'' PyNone = PyStr ''ttys001''"
proof -
  let ?ti = "[(''pid'', PyInt 4242), (''ppid'', PyInt 4000), (''tty'', PyStr ''ttys001'')]"
  have h1: "get_tty env_on_terminal = Inr (PyStr ''/dev/ttys002'')"
    by (rule get_tty_on_terminal)
  have h2: "stdin_ttyname env_on_terminal \<noteq> Inr []"
    by (simp add: env_on_terminal_def)
  have h3: "get_tty env_listening = Inr PyNone"
    by (rule get_tty_listening)
  have h4: "stdin_ttyname env_listening \<noteq> Inr []"
    by (simp add: env_listening_def)
  have i: "dict_get ?ti ''tty'' PyNone = PyStr ''ttys001''"
    by (simp add: dict_get_def)
  have n: "PyStr ''/dev/ttys002'' \<noteq> PyNone"
    by simp
  from tty_override_when_present [OF h1 h2, of "[]" ?ti 0] n
  have a: "dict_get (build_state [] ?ti (PyStr ''/dev/ttys002'') 0) ''tty'' PyNone = PyStr ''/dev/ttys002''"
    by blast
  from tty_override_when_present [OF h3 h4, of "[]" ?ti 0]
  have "dict_get (build_state [] ?ti PyNone 0) ''tty'' PyNone = dict_get ?ti ''tty'' PyNone"
    by blast
  then have b: "dict_get (build_state [] ?ti PyNone 0) ''tty'' PyNone = PyStr ''ttys001''"
    unfolding i .
  from h1 h2 h3 h4 a b show ?thesis by blast
qed

end
